theory Spec2Isabelle
  imports Complex_Main "HOL-Library.AList"
begin

section \<open>The Luat playground: data model\<close>

text \<open>
  The embedding follows \<^verbatim>\<open>src/components/LuatPlayground/index.js\<close>. JavaScript strings are
  \<^typ>\<open>string\<close>, \<^verbatim>\<open>null\<close> is \<^const>\<open>None\<close>, a thrown \<^verbatim>\<open>Error\<close> is the outcome
  \<open>Throw\<close> carrying its message, and every mutation (React state, the
  \<^verbatim>\<open>lastCompiledRef\<close> ref, the WebAssembly module's memory and registry) is explicit state.
\<close>

record VirtualFile =
  name :: string
  code :: string

text \<open>The object parsed from the JSON text the engine returns: \<^verbatim>\<open>{success, html, error}\<close>.\<close>

record RenderResult =
  success :: bool
  html :: "string option"
  error :: "string option"

text \<open>A JavaScript number as far as the timing code needs it: a finite double, given by the
  real it stands for, or \<^verbatim>\<open>Infinity\<close>, which is \<^verbatim>\<open>Math.min()\<close> of no argument. Comparing
  doubles and taking their minimum are exact; subtracting and multiplying them round, and
  are parameters of the model.\<close>

datatype number = Num real | PosInfinity

text \<open>The context object handed to the render call; \<^verbatim>\<open>{}\<close> is the empty list.\<close>

type_synonym context_obj = "(string \<times> string) list"

text \<open>The outcome of a call that may throw: the value returned or the message of the
  \<^verbatim>\<open>Error\<close> thrown.\<close>

datatype 'a outcome = Return 'a | Throw string

text \<open>The foreign calls and page effects that the component issues, in the order issued.\<close>

datatype ccall =
    Script_appended
  | Create_module
  | Luat_init int
  | Luat_add_template string string
  | Luat_clear_templates
  | Luat_render_with_error string string
  | UTF8ToString nat
  | Luat_free_string nat

text \<open>
  The state behind the foreign boundary and the browser: the engine's template registry
  (name to source), the string buffers the engine has handed out and that are not yet freed,
  the calls issued so far (oldest first) and the number of clock readings taken.
\<close>

record world =
  registry :: "(string \<times> string) list"
  heap :: "nat \<rightharpoonup> string"
  calls :: "ccall list"
  ticks :: nat

text \<open>
  Modelled from the spec: the external WebAssembly engine, its loader script, the CodeMirror
  editor and the browser built-ins are not part of this repository. They are parameters of
  the model: whether the loader script defines \<^verbatim>\<open>window.Module\<close> as a function, the status
  code of each foreign entry point, the result handle and JSON text of the render entry
  point (each may depend on everything that happened before, so they read the whole
  \<open>world\<close>), \<^verbatim>\<open>JSON.stringify\<close>, \<^verbatim>\<open>JSON.parse\<close> (\<open>Inl\<close> is the message of the
  \<^verbatim>\<open>SyntaxError\<close> it throws), \<^verbatim>\<open>Number.prototype.toFixed\<close>, the successive readings of
  \<^verbatim>\<open>performance.now()\<close>, the subtraction and the multiplication of doubles, and whether
  the editor reports \<^verbatim>\<open>docChanged\<close> when its whole document (first argument) is replaced by a
  text (second argument).
\<close>

record env =
  script_defines_Module :: bool
  luat_init :: "world \<Rightarrow> int"
  luat_add_template :: "world \<Rightarrow> string \<Rightarrow> string \<Rightarrow> int"
  luat_clear_templates :: "world \<Rightarrow> int"
  luat_render_with_error :: "world \<Rightarrow> string \<Rightarrow> string \<Rightarrow> nat \<times> string"
  JSON_stringify :: "context_obj \<Rightarrow> string"
  JSON_parse :: "string \<Rightarrow> string + RenderResult"
  toFixed :: "real \<Rightarrow> nat \<Rightarrow> string"
  performance_now :: "nat \<Rightarrow> real"
  number_minus :: "real \<Rightarrow> real \<Rightarrow> real"
  number_times :: "real \<Rightarrow> real \<Rightarrow> real"
  editor_docChanged :: "string \<Rightarrow> string \<Rightarrow> bool"

text \<open>The React state of one playground and its refs \<^verbatim>\<open>lastCompiledRef\<close> and
  \<^verbatim>\<open>editorViewRef\<close>: \<open>editorView\<close> is the document of the editor view the ref holds, \<^const>\<open>None\<close>
  while the ref is null. The state variables \<^verbatim>\<open>output\<close> and \<^verbatim>\<open>error\<close> carry the suffix
  \<open>_st\<close>. The loaded module object \<^verbatim>\<open>luat\<close> is identified by the number of the Emscripten
  instance it wraps.\<close>

datatype luat_module = LuatModule nat

record playground =
  files :: "VirtualFile list"
  activeTab :: nat
  output_st :: "string option"
  error_st :: "string option"
  loading :: bool
  luat :: "luat_module option"
  compileTime :: "string option"
  renderTime :: "string option"
  cached :: bool
  lastCompiledRef :: "string option"
  editorView :: "string option"

text \<open>The props \<^verbatim>\<open>code\<close> and \<^verbatim>\<open>files\<close>; \<^const>\<open>None\<close> is a prop that is not given, for which
  the destructuring defaults \<^verbatim>\<open>''\<close> and \<^verbatim>\<open>[]\<close> apply.\<close>

record props =
  code_prop :: "string option"
  files_prop :: "VirtualFile list option"

section \<open>The component's functions\<close>

definition initialCode :: "props \<Rightarrow> string" where
  "initialCode p = (case code_prop p of None \<Rightarrow> [] | Some c \<Rightarrow> c)"

definition initialFiles :: "props \<Rightarrow> VirtualFile list" where
  "initialFiles p = (case files_prop p of None \<Rightarrow> [] | Some fs \<Rightarrow> fs)"

definition getInitialFiles :: "props \<Rightarrow> VirtualFile list" where
  "getInitialFiles p =
     (if length (initialFiles p) > 0 then initialFiles p
      else if initialCode p \<noteq> [] then [\<lparr>name = ''main.luat'', code = initialCode p\<rparr>]
      else [\<lparr>name = ''main.luat'', code = []\<rparr>])"

text \<open>\<^verbatim>\<open>Array.prototype.join\<close> on strings.\<close>

fun join :: "string \<Rightarrow> string list \<Rightarrow> string" where
  "join sep [] = []"
| "join sep [x] = x"
| "join sep (x # y # ys) = x @ sep @ join sep (y # ys)"

definition getFilesHash :: "VirtualFile list \<Rightarrow> string" where
  "getFilesHash fs = join ''|'' (map (\<lambda>f. name f @ '':'' @ code f) fs)"

definition formatTime :: "env \<Rightarrow> number \<Rightarrow> string" where
  "formatTime E ms =
     (case ms of
        Num x \<Rightarrow> (if x < 1 then toFixed E (number_times E x 1000) 0 @ [CHR 0xC2, CHR 0xB5] @ ''s''
                  else toFixed E x 2 @ ''ms'')
      | PosInfinity \<Rightarrow> ''Infinityms'')"

fun Math_min :: "real list \<Rightarrow> number" where
  "Math_min [] = PosInfinity"
| "Math_min (x # xs) = (case Math_min xs of PosInfinity \<Rightarrow> Num x | Num m \<Rightarrow> Num (min x m))"

definition now :: "env \<Rightarrow> world \<Rightarrow> real \<times> world" where
  "now E w = (performance_now E (ticks w), w\<lparr>ticks := Suc (ticks w)\<rparr>)"

subsection \<open>The foreign boundary\<close>

text \<open>Modelled from the spec: \<^verbatim>\<open>add_template\<close> registers or replaces a named source
  under the engine's lookup table; it does so when it reports status zero.\<close>

definition ccall_add_template :: "env \<Rightarrow> string \<Rightarrow> string \<Rightarrow> world \<Rightarrow> int \<times> world" where
  "ccall_add_template E path source w =
     (let r = luat_add_template E w path source
      in (r, w\<lparr>registry := (if r = 0 then AList.update path source (registry w) else registry w),
               calls := calls w @ [Luat_add_template path source]\<rparr>))"

text \<open>Modelled from the spec: \<^verbatim>\<open>clear_templates\<close> empties the lookup table; it does so
  when it reports status zero.\<close>

definition ccall_clear_templates :: "env \<Rightarrow> world \<Rightarrow> int \<times> world" where
  "ccall_clear_templates E w =
     (let r = luat_clear_templates E w
      in (r, w\<lparr>registry := (if r = 0 then [] else registry w),
               calls := calls w @ [Luat_clear_templates]\<rparr>))"

text \<open>Modelled from the spec: \<^verbatim>\<open>render_with_error\<close> returns a handle to a buffer that
  holds the JSON text of the result, or the null handle.\<close>

definition ccall_render_with_error :: "env \<Rightarrow> string \<Rightarrow> string \<Rightarrow> world \<Rightarrow> nat \<times> world" where
  "ccall_render_with_error E entry contextJson w =
     (let (p, json) = luat_render_with_error E w entry contextJson
      in (p, w\<lparr>heap := (if p = 0 then heap w else (heap w)(p \<mapsto> json)),
               calls := calls w @ [Luat_render_with_error entry contextJson]\<rparr>))"

text \<open>Modelled from the spec: \<^verbatim>\<open>UTF8ToString\<close> copies the text out of a buffer (a buffer
  that is not live reads as the empty text here).\<close>

definition Module_UTF8ToString :: "nat \<Rightarrow> world \<Rightarrow> string \<times> world" where
  "Module_UTF8ToString p w =
     ((case heap w p of None \<Rightarrow> [] | Some s \<Rightarrow> s), w\<lparr>calls := calls w @ [UTF8ToString p]\<rparr>)"

text \<open>Modelled from the spec: \<^verbatim>\<open>free_string\<close> releases a buffer.\<close>

definition Module_luat_free_string :: "nat \<Rightarrow> world \<Rightarrow> world" where
  "Module_luat_free_string p w =
     w\<lparr>heap := (heap w)(p := None), calls := calls w @ [Luat_free_string p]\<rparr>"

subsection \<open>The methods of \<^verbatim>\<open>luatModule\<close>\<close>

definition addTemplate :: "env \<Rightarrow> string \<Rightarrow> string \<Rightarrow> world \<Rightarrow> unit outcome \<times> world" where
  "addTemplate E path source w =
     (let (r, w') = ccall_add_template E path source w
      in if r \<noteq> 0 then (Throw (''Failed to add template: '' @ path), w')
         else (Return (), w'))"

definition clearTemplates :: "env \<Rightarrow> world \<Rightarrow> unit outcome \<times> world" where
  "clearTemplates E w = (let (r, w') = ccall_clear_templates E w in (Return (), w'))"

definition renderWithError :: "env \<Rightarrow> string \<Rightarrow> context_obj \<Rightarrow> world \<Rightarrow> RenderResult outcome \<times> world" where
  "renderWithError E entry ctx w =
     (let contextJson = JSON_stringify E ctx;
          (resultPtr, w1) = ccall_render_with_error E entry contextJson w
      in if resultPtr = 0
         then (Return \<lparr>success = False, html = None, error = Some ''Internal error''\<rparr>, w1)
         else
           let (resultJson, w2) = Module_UTF8ToString resultPtr w1;
               w3 = Module_luat_free_string resultPtr w2
           in (case JSON_parse E resultJson of
                 Inl m \<Rightarrow> (Throw m, w3)
               | Inr r \<Rightarrow> (Return r, w3)))"

subsection \<open>Editing and resetting\<close>

text \<open>The editor's update listener: \<^verbatim>\<open>setFiles(prev => prev.map((f, i) => i === tabIndex ?
  {...f, code: newCode} : f))\<close>, with \<^verbatim>\<open>tabIndex\<close> the active tab.\<close>

definition docChanged :: "string \<Rightarrow> playground \<Rightarrow> playground" where
  "docChanged newCode s =
     s\<lparr>files := map (\<lambda>(i, f). if i = activeTab s then f\<lparr>code := newCode\<rparr> else f)
                     (enumerate 0 (files s))\<rparr>"

text \<open>
  \<^verbatim>\<open>reset\<close>. \<^verbatim>\<open>setFiles(initial)\<close> and \<^verbatim>\<open>setActiveTab(0)\<close> are queued; then, if there is an
  editor view and a first file, the view's whole document is replaced by that file's code.
  When the editor reports this as a document change, its update listener runs at once, with
  \<^verbatim>\<open>activeTabRef\<close> still holding the tab that was active, and queues its update of the files
  after \<^verbatim>\<open>setFiles(initial)\<close>. The remaining setters and the ref follow.
\<close>

definition reset :: "env \<Rightarrow> props \<Rightarrow> playground \<Rightarrow> playground" where
  "reset E p s =
     (let initial = getInitialFiles p;
          s1 = s\<lparr>files := initial\<rparr>;
          s2 = (case (editorView s1, initial) of
                  (Some doc, f0 # fs) \<Rightarrow>
                    (let s' = s1\<lparr>editorView := Some (code f0)\<rparr>
                     in if editor_docChanged E doc (code f0) then docChanged (code f0) s'
                        else s')
                | _ \<Rightarrow> s1)
      in s2\<lparr>activeTab := 0, error_st := None, output_st := Some [], compileTime := None,
            renderTime := None, cached := False, lastCompiledRef := None\<rparr>)"

subsection \<open>\<^verbatim>\<open>runCode\<close>\<close>

text \<open>The message of the \<^verbatim>\<open>TypeError\<close> raised by reading a property of \<^verbatim>\<open>undefined\<close>
  (the wording is the JavaScript engine's).\<close>

definition TypeError_undefined :: "string \<Rightarrow> string" where
  "TypeError_undefined prop = ''Cannot read properties of undefined (reading '' @ prop @ '')''"

text \<open>The loop \<^verbatim>\<open>for (const file of currentFiles) luat.addTemplate(file.name, file.code)\<close>:
  the first call that throws ends it.\<close>

fun add_all :: "env \<Rightarrow> VirtualFile list \<Rightarrow> world \<Rightarrow> unit outcome \<times> world" where
  "add_all E [] w = (Return (), w)"
| "add_all E (f # fs) w =
     (case addTemplate E (name f) (code f) w of
        (Throw m, w') \<Rightarrow> (Throw m, w')
      | (Return u, w') \<Rightarrow> add_all E fs w')"

text \<open>The first statement of the \<^verbatim>\<open>try\<close> block: reload the templates only if the files
  changed.\<close>

definition reload_templates ::
  "env \<Rightarrow> VirtualFile list \<Rightarrow> string \<Rightarrow> playground \<Rightarrow> world \<Rightarrow> unit outcome \<times> playground \<times> world" where
  "reload_templates E currentFiles currentHash s w =
     (let codeChanged = (lastCompiledRef s \<noteq> Some currentHash)
      in if codeChanged then
           let (compileStart, w1) = now E w
           in (case clearTemplates E w1 of
                 (Throw m, w2) \<Rightarrow> (Throw m, s, w2)
               | (Return u, w2) \<Rightarrow>
                   (case add_all E currentFiles w2 of
                      (Throw m, w3) \<Rightarrow> (Throw m, s, w3)
                    | (Return u, w3) \<Rightarrow>
                        let (t, w4) = now E w3;
                            compileMs = number_minus E t compileStart
                        in (Return (),
                            s\<lparr>lastCompiledRef := Some currentHash, cached := False,
                              compileTime := Some (formatTime E (Num compileMs))\<rparr>,
                            w4)))
         else (Return (), s\<lparr>cached := True\<rparr>, w))"

text \<open>\<^verbatim>\<open>currentFiles.find(f => f.name === 'main.luat') || currentFiles[0]\<close>; \<^const>\<open>None\<close> is
  \<^verbatim>\<open>undefined\<close>.\<close>

definition entryFile_of :: "VirtualFile list \<Rightarrow> VirtualFile option" where
  "entryFile_of currentFiles =
     (case find (\<lambda>f. name f = ''main.luat'') currentFiles of
        Some f \<Rightarrow> Some f
      | None \<Rightarrow> (case currentFiles of [] \<Rightarrow> None | f # fs \<Rightarrow> Some f))"

text \<open>The sampling loop \<^verbatim>\<open>for (let i = 0; i < 3; i++)\<close>, by the number of iterations left;
  the accumulator is \<^verbatim>\<open>samples\<close> and \<^verbatim>\<open>result\<close>.\<close>

fun render_samples ::
  "env \<Rightarrow> nat \<Rightarrow> VirtualFile option \<Rightarrow> real list \<times> RenderResult option \<Rightarrow> world
   \<Rightarrow> (real list \<times> RenderResult option) outcome \<times> world" where
  "render_samples E 0 entryFile acc w = (Return acc, w)"
| "render_samples E (Suc n) entryFile (samples, result) w =
     (let (renderStart, w1) = now E w
      in case entryFile of
           None \<Rightarrow> (Throw (TypeError_undefined ''name''), w1)
         | Some f \<Rightarrow>
             (case renderWithError E (name f) [] w1 of
                (Throw m, w2) \<Rightarrow> (Throw m, w2)
              | (Return r, w2) \<Rightarrow>
                  let (t, w3) = now E w2
                  in render_samples E n entryFile
                       (samples @ [number_minus E t renderStart], Some r) w3))"

text \<open>The \<^verbatim>\<open>try\<close> block of \<^verbatim>\<open>runCode\<close>. It returns the render result it displayed, or the
  message of what was thrown, with the state as the statements before the throw left it.\<close>

definition runCode_try ::
  "env \<Rightarrow> VirtualFile list \<Rightarrow> string \<Rightarrow> playground \<Rightarrow> world
   \<Rightarrow> RenderResult outcome \<times> playground \<times> world" where
  "runCode_try E currentFiles currentHash s w =
     (case reload_templates E currentFiles currentHash s w of
        (Throw m, s1, w1) \<Rightarrow> (Throw m, s1, w1)
      | (Return u, s1, w1) \<Rightarrow>
          (let entryFile = entryFile_of currentFiles
           in case render_samples E 3 entryFile ([], None) w1 of
                (Throw m, w2) \<Rightarrow> (Throw m, s1, w2)
              | (Return (samples, result), w2) \<Rightarrow>
                  (let renderMs = Math_min samples;
                       s2 = s1\<lparr>renderTime := Some (formatTime E renderMs)\<rparr>
                   in case result of
                        None \<Rightarrow> (Throw (TypeError_undefined ''success''), s2, w2)
                      | Some r \<Rightarrow>
                          if success r
                          then (Return r, s2\<lparr>output_st := html r, error_st := None\<rparr>, w2)
                          else (Return r, s2\<lparr>error_st := error r, output_st := Some []\<rparr>, w2))))"

definition runCode :: "env \<Rightarrow> playground \<times> world \<Rightarrow> playground \<times> world" where
  "runCode E sw =
     (case sw of (s, w) \<Rightarrow>
        (case luat s of
           None \<Rightarrow> (s, w)
         | Some m \<Rightarrow>
             (let currentFiles = files s;
                  currentHash = getFilesHash currentFiles
              in case runCode_try E currentFiles currentHash s w of
                   (Return r, s', w') \<Rightarrow> (s', w')
                 | (Throw e, s', w') \<Rightarrow>
                     (s'\<lparr>error_st := Some e, output_st := Some [],
                         compileTime := None, renderTime := None\<rparr>, w'))))"

section \<open>Vocabulary of the properties\<close>

text \<open>The foreign call that registers a file, and the calls that mutate the registry.\<close>

definition add_call :: "VirtualFile \<Rightarrow> ccall" where
  "add_call f = Luat_add_template (name f) (code f)"

fun is_registry_call :: "ccall \<Rightarrow> bool" where
  "is_registry_call (Luat_add_template path source) = True"
| "is_registry_call Luat_clear_templates = True"
| "is_registry_call c = False"

fun is_render_call :: "ccall \<Rightarrow> bool" where
  "is_render_call (Luat_render_with_error entry contextJson) = True"
| "is_render_call c = False"

text \<open>The world in which the \<^verbatim>\<open>addTemplate\<close> loop of a rebuild starts: the clock was read
  and the registry cleared.\<close>

definition rebuild_start :: "env \<Rightarrow> world \<Rightarrow> world" where
  "rebuild_start E w = snd (clearTemplates E (snd (now E w)))"

text \<open>No \<^verbatim>\<open>addTemplate\<close> call of a rebuild of the files throws.\<close>

definition rebuild_completes :: "env \<Rightarrow> VirtualFile list \<Rightarrow> world \<Rightarrow> bool" where
  "rebuild_completes E fs w = (fst (add_all E fs (rebuild_start E w)) = Return ())"

text \<open>How the \<^verbatim>\<open>try\<close> block of a run ends: the render result displayed, or the message
  thrown.\<close>

definition run_result :: "env \<Rightarrow> playground \<Rightarrow> world \<Rightarrow> RenderResult outcome" where
  "run_result E s w = fst (runCode_try E (files s) (getFilesHash (files s)) s w)"

text \<open>The calls a step issued: those of the later world beyond those of the earlier one.\<close>

definition new_calls :: "world \<Rightarrow> world \<Rightarrow> ccall list" where
  "new_calls w w' = drop (length (calls w)) (calls w')"

text \<open>An edit of one file that changes its name or its code, and only that.\<close>

definition edits_one_field :: "VirtualFile \<Rightarrow> VirtualFile \<Rightarrow> bool" where
  "edits_one_field f f' =
     ((name f' = name f \<and> code f' \<noteq> code f) \<or> (code f' = code f \<and> name f' \<noteq> name f))"

section \<open>A concrete engine\<close>

text \<open>
  An engine for the concrete runs below. It rejects the source \<^verbatim>\<open>{#if x}\<close> when it is
  added, renders the source \<^verbatim>\<open><h1>Hi</h1>\<close> to itself, reports a template error for
  every other registered entry and a missing template for an entry that is not registered; an
  empty entry name gives the null handle. The clock reads
  \<open>0, 1, 4, 9, \<dots>\<close> milliseconds, whose differences and products doubles give exactly,
  and \<^verbatim>\<open>toFixed\<close> is given on the durations that occur. The editor reports a document
  change unless an empty document is replaced by the empty text.
\<close>

definition json_ok :: string where
  "json_ok = ''{\"success\":true,\"html\":\"<h1>Hi</h1>\",\"error\":null}''"

definition json_fail :: string where
  "json_fail = ''{\"success\":false,\"html\":null,\"error\":\"Unclosed {#if} block\"}''"

definition json_missing :: string where
  "json_missing = ''{\"success\":false,\"html\":null,\"error\":\"Template not found\"}''"

definition demo_engine :: env where
  "demo_engine =
     \<lparr>script_defines_Module = True,
      luat_init = (\<lambda>w. 0),
      luat_add_template = (\<lambda>w path source. if source = ''{#if x}'' then 1 else 0),
      luat_clear_templates = (\<lambda>w. 0),
      luat_render_with_error =
        (\<lambda>w entry contextJson.
           if entry = [] then (0, [])
           else if map_of (registry w) entry = None then (8, json_missing)
           else if map_of (registry w) entry = Some ''<h1>Hi</h1>'' then (8, json_ok)
           else (8, json_fail)),
      JSON_stringify = (\<lambda>c. ''{}''),
      JSON_parse =
        (\<lambda>j. if j = json_ok
             then Inr \<lparr>success = True, html = Some ''<h1>Hi</h1>'', error = None\<rparr>
             else if j = json_fail
             then Inr \<lparr>success = False, html = None, error = Some ''Unclosed {#if} block''\<rparr>
             else if j = json_missing
             then Inr \<lparr>success = False, html = None, error = Some ''Template not found''\<rparr>
             else Inl ''Unexpected end of JSON input''),
      toFixed =
        (\<lambda>x n. if x = 1 then ''1.00'' else if x = 5 then ''5.00'' else if x = 17 then ''17.00''
               else if x = 19 then ''19.00'' else if x = 21 then ''21.00'' else ''0.00''),
      performance_now = (\<lambda>k. real (k * k)),
      number_minus = (\<lambda>a b. a - b),
      number_times = (\<lambda>a b. a * b),
      editor_docChanged = (\<lambda>doc text. \<not> (doc = [] \<and> text = []))\<rparr>"

definition world0 :: world where
  "world0 = \<lparr>registry = [], heap = Map.empty, calls = [], ticks = 0\<rparr>"

text \<open>A playground with the module loaded, showing the file \<^verbatim>\<open>main.luat\<close> with the given
  code in its editor, before its first run.\<close>

definition demo_playground :: "string \<Rightarrow> playground" where
  "demo_playground c =
     \<lparr>files = [\<lparr>name = ''main.luat'', code = c\<rparr>], activeTab = 0, output_st = Some [],
      error_st = None, loading = False, luat = Some (LuatModule 0), compileTime = None,
      renderTime = None, cached = False, lastCompiledRef = None, editorView = Some c\<rparr>"

text \<open>
  Concrete runs with this engine: a first run of \<^verbatim>\<open><h1>Hi</h1>\<close>; the props that give the
  same file; a first run of the rejected source; after the first run, an edit to the rejected
  source followed by a run; and after that, an edit back to \<^verbatim>\<open><h1>Hi</h1>\<close> followed by a
  run.
\<close>

definition demo_first_run :: "playground \<times> world" where
  "demo_first_run = runCode demo_engine (demo_playground ''<h1>Hi</h1>'', world0)"


definition demo_failed_run :: "playground \<times> world" where
  "demo_failed_run = runCode demo_engine (demo_playground ''{#if x}'', world0)"

definition demo_failed_edit :: "playground \<times> world" where
  "demo_failed_edit =
     runCode demo_engine (docChanged ''{#if x}'' (fst demo_first_run), snd demo_first_run)"

definition demo_reverted_run :: "playground \<times> world" where
  "demo_reverted_run =
     runCode demo_engine (docChanged ''<h1>Hi</h1>'' (fst demo_failed_edit), snd demo_failed_edit)"

section \<open>The module loader and the page\<close>

text \<open>
  \<^verbatim>\<open>loadLuatModule\<close> is asynchronous. On the single-threaded event loop its body runs in
  pieces: the synchronous part of a call, and the continuations after each \<^verbatim>\<open>await\<close>. The
  page alternates these pieces with the event handlers of the playgrounds on it; an event
  that is not enabled leaves the page as it is.
\<close>

datatype 'a promise = Pending | Fulfilled 'a | Rejected string

text \<open>Where the body of the function assigned to \<^verbatim>\<open>luatLoading\<close> is suspended: at the script
  promise (\<open>True\<close>: a script element was appended and has not fired yet; \<open>False\<close>:
  \<^verbatim>\<open>window.Module\<close> was there and the promise is already resolved), or at the promise of
  \<^verbatim>\<open>createModule\<close>, which is making the instance of the given number.\<close>

datatype suspension = Not_running | At_script bool | At_createModule nat

text \<open>The promise a call of \<^verbatim>\<open>loadLuatModule\<close> returns: resolved with \<^verbatim>\<open>luatModule\<close>, or
  following \<^verbatim>\<open>luatLoading\<close>.\<close>

datatype load_handle = Got luat_module | Follows

record widget =
  wprops :: props
  pg :: playground
  pending_load :: "load_handle option"

record page =
  luatModule :: "luat_module option"
  luatLoading :: "luat_module promise option"
  body :: suspension
  window_Module :: bool
  wasm :: world
  widgets :: "widget list"














text \<open>
  The editor of a playground. The effect that depends on \<^verbatim>\<open>activeTab\<close> destroys the view
  when the tab has changed and creates a new one once its imports have resolved, showing
  \<^verbatim>\<open>filesRef.current[activeTabRef.current]?.code || ''\<close>; typing replaces the document
  and runs the update listener.
\<close>

definition tab_effect :: "nat \<Rightarrow> playground \<Rightarrow> playground" where
  "tab_effect old s = (if activeTab s \<noteq> old then s\<lparr>editorView := None\<rparr> else s)"

definition editor_ready :: "playground \<Rightarrow> playground" where
  "editor_ready s =
     s\<lparr>editorView :=
         Some (if activeTab s < length (files s) then code (files s ! activeTab s) else [])\<rparr>"

definition typed :: "string \<Rightarrow> playground \<Rightarrow> playground" where
  "typed c s =
     (case editorView s of
        None \<Rightarrow> s
      | Some doc \<Rightarrow> docChanged c (s\<lparr>editorView := Some c\<rparr>))"







text \<open>The calls that only the loader makes, and the calls of \<^verbatim>\<open>luat_init\<close> among them.\<close>

fun is_loader_call :: "ccall \<Rightarrow> bool" where
  "is_loader_call Script_appended = True"
| "is_loader_call Create_module = True"
| "is_loader_call (Luat_init rc) = True"
| "is_loader_call c = False"

fun is_init_call :: "ccall \<Rightarrow> bool" where
  "is_init_call (Luat_init rc) = True"
| "is_init_call c = False"

text \<open>Every render call in the list comes after a call of \<^verbatim>\<open>luat_init\<close> that returned zero
  (the flag says that one was seen).\<close>

fun render_after_init :: "bool \<Rightarrow> ccall list \<Rightarrow> bool" where
  "render_after_init ok [] = True"
| "render_after_init ok (Luat_init rc # cs) = render_after_init (ok \<or> rc = 0) cs"
| "render_after_init ok (Luat_render_with_error entry contextJson # cs) =
     (ok \<and> render_after_init ok cs)"
| "render_after_init ok (c # cs) = render_after_init ok cs"

text \<open>The later world has the calls of the earlier one, followed by calls that are not the
  loader's.\<close>

definition run_extends :: "world \<Rightarrow> world \<Rightarrow> bool" where
  "run_extends w w' = (\<exists>rest. calls w' = calls w @ rest \<and> filter is_loader_call rest = [])"

text \<open>How many script elements were appended, instances created and \<^verbatim>\<open>luat_init\<close> calls
  made.\<close>

definition scripts :: "page \<Rightarrow> nat" where
  "scripts P = length (filter (\<lambda>c. c = Script_appended) (calls (wasm P)))"

definition creates :: "page \<Rightarrow> nat" where
  "creates P = length (filter (\<lambda>c. c = Create_module) (calls (wasm P)))"

definition inits :: "page \<Rightarrow> nat" where
  "inits P = length (filter is_init_call (calls (wasm P)))"

text \<open>The stages of the one load, by where its body is suspended and how its promise stands;
  the flag says whether \<^verbatim>\<open>window.Module\<close> was a function on the fresh page.\<close>

definition loader_inv :: "bool \<Rightarrow> page \<Rightarrow> bool" where
  "loader_inv wm P =
     (scripts P = (if luatLoading P = None \<or> wm then 0 else 1)
      \<and> (case body P of
            Not_running \<Rightarrow>
              (case luatLoading P of
                 None \<Rightarrow> creates P = 0 \<and> inits P = 0 \<and> luatModule P = None
                          \<and> window_Module P = wm
               | Some Pending \<Rightarrow> False
               | Some (Fulfilled m) \<Rightarrow> creates P = 1 \<and> inits P = 1
                          \<and> luatModule P = Some m \<and> m = LuatModule 0
                          \<and> Luat_init 0 \<in> set (calls (wasm P))
               | Some (Rejected msg) \<Rightarrow> creates P \<le> 1 \<and> inits P \<le> 1
                          \<and> luatModule P = None)
          | At_script b \<Rightarrow> luatLoading P = Some Pending \<and> creates P = 0
                          \<and> inits P = 0 \<and> luatModule P = None
          | At_createModule n \<Rightarrow> luatLoading P = Some Pending \<and> n = 0
                          \<and> creates P = 1 \<and> inits P = 0 \<and> luatModule P = None))"




text \<open>The invariants of the page: render calls follow a successful init and need a loaded
  module; a playground holds, or was handed, no other module than the loaded one.\<close>

definition trace_inv :: "page \<Rightarrow> bool" where
  "trace_inv P =
     (render_after_init False (calls (wasm P))
      \<and> (luatModule P = None \<longrightarrow> filter is_render_call (calls (wasm P)) = []))"

definition widget_ok :: "page \<Rightarrow> widget \<Rightarrow> bool" where
  "widget_ok P wd =
     ((\<forall>m. luat (pg wd) = Some m \<longrightarrow> luatModule P = Some m)
      \<and> (\<forall>m. pending_load wd = Some (Got m) \<longrightarrow> luatModule P = Some m))"






text \<open>An engine whose render entry point returns text that is not JSON.\<close>

definition demo_engine_bad_json :: env where
  "demo_engine_bad_json =
     demo_engine\<lparr>luat_render_with_error := (\<lambda>w entry contextJson. (8, ''{''))\<rparr>"


section \<open>Facts about the bridge and the phases of a run\<close>

lemma now_simps [simp]:
  "fst (now E w) = performance_now E (ticks w)"
  "calls (snd (now E w)) = calls w"
  "registry (snd (now E w)) = registry w"
  "heap (snd (now E w)) = heap w"
  "ticks (snd (now E w)) = Suc (ticks w)"
  by (simp_all add: now_def)

lemma clearTemplates_simps [simp]:
  "fst (clearTemplates E w) = Return ()"
  "calls (snd (clearTemplates E w)) = calls w @ [Luat_clear_templates]"
  "ticks (snd (clearTemplates E w)) = ticks w"
  "heap (snd (clearTemplates E w)) = heap w"
  by (simp_all add: clearTemplates_def ccall_clear_templates_def Let_def)

lemma addTemplate_status:
  "fst (addTemplate E path source w) =
     (if luat_add_template E w path source = 0 then Return ()
      else Throw (''Failed to add template: '' @ path))"
  by (simp add: addTemplate_def ccall_add_template_def Let_def)

lemma addTemplate_simps [simp]:
  "calls (snd (addTemplate E path source w)) = calls w @ [Luat_add_template path source]"
  "ticks (snd (addTemplate E path source w)) = ticks w"
  "heap (snd (addTemplate E path source w)) = heap w"
  by (simp_all add: addTemplate_def ccall_add_template_def Let_def)

lemma add_all_Return_calls:
  "fst (add_all E fs w) = Return () \<Longrightarrow>
   calls (snd (add_all E fs w)) = calls w @ map add_call fs"
proof (induction fs arbitrary: w)
  case Nil
  then show ?case by simp
next
  case (Cons f fs)
  obtain o1 w1 where a: "addTemplate E (name f) (code f) w = (o1, w1)"
    by (cases "addTemplate E (name f) (code f) w")
  have c: "calls w1 = calls w @ [add_call f]"
    using addTemplate_simps(1) [of E "name f" "code f" w] a by (simp add: add_call_def)
  show ?case
  proof (cases o1)
    case (Return u)
    with Cons.prems a have "fst (add_all E fs w1) = Return ()" by simp
    from Cons.IH [OF this] Return a c show ?thesis by simp
  next
    case (Throw m)
    with Cons.prems a show ?thesis by simp
  qed
qed


lemma add_all_ticks [simp]: "ticks (snd (add_all E fs w)) = ticks w"
proof (induction fs arbitrary: w)
  case Nil
  then show ?case by simp
next
  case (Cons f fs)
  obtain o1 w1 where a: "addTemplate E (name f) (code f) w = (o1, w1)"
    by (cases "addTemplate E (name f) (code f) w")
  have "ticks w1 = ticks w"
    using addTemplate_simps(2) [of E "name f" "code f" w] a by simp
  with a Cons.IH [of w1] show ?case by (cases o1) simp_all
qed

lemma renderWithError_calls:
  "\<exists>rest. calls (snd (renderWithError E entry ctx w)) =
      calls w @ Luat_render_with_error entry (JSON_stringify E ctx) # rest
    \<and> filter is_registry_call rest = [] \<and> filter is_render_call rest = []"
  by (simp add: renderWithError_def ccall_render_with_error_def Module_UTF8ToString_def
      Module_luat_free_string_def Let_def split: prod.splits sum.splits)

lemma renderWithError_simps [simp]:
  "registry (snd (renderWithError E entry ctx w)) = registry w"
  "ticks (snd (renderWithError E entry ctx w)) = ticks w"
  by (simp_all add: renderWithError_def ccall_render_with_error_def Module_UTF8ToString_def
      Module_luat_free_string_def Let_def split: prod.splits sum.splits)

lemma reload_cached:
  "lastCompiledRef s = Some h \<Longrightarrow> reload_templates E fs h s w = (Return (), s\<lparr>cached := True\<rparr>, w)"
  by (simp add: reload_templates_def)

lemma reload_rebuild_ok:
  assumes "lastCompiledRef s \<noteq> Some h" and "rebuild_completes E fs w"
  shows "reload_templates E fs h s w =
     (Return (),
      s\<lparr>lastCompiledRef := Some h, cached := False,
        compileTime := Some (formatTime E
          (Num (number_minus E (performance_now E (Suc (ticks w))) (performance_now E (ticks w)))))\<rparr>,
      snd (now E (snd (add_all E fs (rebuild_start E w)))))"
proof -
  obtain w3 where a: "add_all E fs (rebuild_start E w) = (Return (), w3)"
    using assms(2) by (cases "add_all E fs (rebuild_start E w)") (simp add: rebuild_completes_def)
  have "ticks (snd (add_all E fs (rebuild_start E w))) = Suc (ticks w)"
    by (simp add: rebuild_start_def)
  then have t: "ticks w3 = Suc (ticks w)" unfolding a by simp
  obtain w2 where c: "clearTemplates E (snd (now E w)) = (Return (), w2)"
    using clearTemplates_simps(1) [of E "snd (now E w)"]
    by (cases "clearTemplates E (snd (now E w))") simp
  have r: "rebuild_start E w = w2" using c by (simp add: rebuild_start_def)
  show ?thesis
    using assms(1) a c t r
    by (simp add: reload_templates_def Let_def split_beta now_def)
qed

lemma reload_rebuild_throw:
  assumes "lastCompiledRef s \<noteq> Some h" and "fst (add_all E fs (rebuild_start E w)) = Throw m"
  shows "reload_templates E fs h s w = (Throw m, s, snd (add_all E fs (rebuild_start E w)))"
proof -
  obtain w3 where a: "add_all E fs (rebuild_start E w) = (Throw m, w3)"
    using assms(2) by (cases "add_all E fs (rebuild_start E w)") simp
  obtain w2 where c: "clearTemplates E (snd (now E w)) = (Return (), w2)"
    using clearTemplates_simps(1) [of E "snd (now E w)"]
    by (cases "clearTemplates E (snd (now E w))") simp
  have r: "rebuild_start E w = w2" using c by (simp add: rebuild_start_def)
  show ?thesis
    using assms(1) a c r
    by (simp add: reload_templates_def Let_def split_beta)
qed





lemma runCode_loaded:
  "luat s = Some m \<Longrightarrow>
   runCode E (s, w) =
     (case runCode_try E (files s) (getFilesHash (files s)) s w of
        (Return r, s', w') \<Rightarrow> (s', w')
      | (Throw e, s', w') \<Rightarrow>
          (s'\<lparr>error_st := Some e, output_st := Some [],
              compileTime := None, renderTime := None\<rparr>, w'))"
  by (simp add: runCode_def Let_def)



lemma rebuild_start_calls [simp]:
  "calls (rebuild_start E w) = calls w @ [Luat_clear_templates]"
  by (simp add: rebuild_start_def)








lemma render_samples_Suc_Return:
  assumes "render_samples E (Suc n) ef (samples, result) w = (Return acc', w')"
  shows "\<exists>f r b. ef = Some f
     \<and> renderWithError E (name f) [] (snd (now E w)) = (Return r, b)
     \<and> render_samples E n ef (samples @ [number_minus E (fst (now E b)) (fst (now E w))], Some r) (snd (now E b))
         = (Return acc', w')"
proof (cases ef)
  case None
  with assms show ?thesis by (simp add: split_beta)
next
  case (Some f)
  obtain o2 b where r: "renderWithError E (name f) [] (snd (now E w)) = (o2, b)"
    by (cases "renderWithError E (name f) [] (snd (now E w))")
  show ?thesis
  proof (cases o2)
    case (Throw e)
    with assms Some r show ?thesis by (simp add: split_beta)
  next
    case (Return rr)
    with assms Some r show ?thesis by (simp add: split_beta)
  qed
qed

lemma render_samples_three:
  assumes "render_samples E 3 ef ([], None) w1 = (Return (samples, result), w2)"
  shows "\<exists>f r1 b1 r2 b2 r3 b3. ef = Some f
     \<and> renderWithError E (name f) [] (snd (now E w1)) = (Return r1, b1)
     \<and> renderWithError E (name f) [] (snd (now E (snd (now E b1)))) = (Return r2, b2)
     \<and> renderWithError E (name f) [] (snd (now E (snd (now E b2)))) = (Return r3, b3)
     \<and> w2 = snd (now E b3) \<and> result = Some r3
     \<and> samples = [number_minus E (fst (now E b1)) (fst (now E w1)),
                   number_minus E (fst (now E b2)) (fst (now E (snd (now E b1)))),
                   number_minus E (fst (now E b3)) (fst (now E (snd (now E b2))))]"
proof -
  from assms have a: "render_samples E (Suc (Suc (Suc 0))) ef ([], None) w1
      = (Return (samples, result), w2)" by (simp add: numeral_3_eq_3)
  from render_samples_Suc_Return [OF a] obtain f r1 b1 where f: "ef = Some f"
    and c1: "renderWithError E (name f) [] (snd (now E w1)) = (Return r1, b1)"
    and s1: "render_samples E (Suc (Suc 0)) ef ([] @ [number_minus E (fst (now E b1)) (fst (now E w1))], Some r1)
        (snd (now E b1)) = (Return (samples, result), w2)" by blast
  from render_samples_Suc_Return [OF s1] f obtain r2 b2 where
    c2: "renderWithError E (name f) [] (snd (now E (snd (now E b1)))) = (Return r2, b2)"
    and s2: "render_samples E (Suc 0) ef
        (([] @ [number_minus E (fst (now E b1)) (fst (now E w1))])
           @ [number_minus E (fst (now E b2)) (fst (now E (snd (now E b1))))], Some r2)
        (snd (now E b2)) = (Return (samples, result), w2)" by auto
  from render_samples_Suc_Return [OF s2] f obtain r3 b3 where
    c3: "renderWithError E (name f) [] (snd (now E (snd (now E b2)))) = (Return r3, b3)"
    and s3: "render_samples E 0 ef
        ((([] @ [number_minus E (fst (now E b1)) (fst (now E w1))])
           @ [number_minus E (fst (now E b2)) (fst (now E (snd (now E b1))))])
           @ [number_minus E (fst (now E b3)) (fst (now E (snd (now E b2))))], Some r3)
        (snd (now E b3)) = (Return (samples, result), w2)" by auto
  from s3 have "w2 = snd (now E b3)" "result = Some r3"
    "samples = [number_minus E (fst (now E b1)) (fst (now E w1)),
                number_minus E (fst (now E b2)) (fst (now E (snd (now E b1)))),
                number_minus E (fst (now E b3)) (fst (now E (snd (now E b2))))]" by simp_all
  with f c1 c2 c3 show ?thesis by blast
qed

lemma filter_render_add_calls [simp]: "filter is_render_call (map add_call fs) = []"
  by (induction fs) (simp_all add: add_call_def)

lemma reload_Return:
  assumes "reload_templates E fs h s w = (Return u, s1, w1)"
  shows "\<exists>pre. calls w1 = calls w @ pre \<and> filter is_render_call pre = []
          \<and> ticks w1 = ticks w + (if lastCompiledRef s = Some h then 0 else 2)"
proof (cases "lastCompiledRef s = Some h")
  case True
  with assms reload_cached [OF True, of E fs w] show ?thesis by simp
next
  case False
  show ?thesis
  proof (cases "rebuild_completes E fs w")
    case True
    let ?a = "add_all E fs (rebuild_start E w)"
    have c: "calls (snd ?a) = calls (rebuild_start E w) @ map add_call fs"
      using True by (intro add_all_Return_calls) (simp add: rebuild_completes_def)
    have w1: "w1 = snd (now E (snd ?a))"
      using assms reload_rebuild_ok [OF False True] by simp
    have "calls w1 = calls w @ (Luat_clear_templates # map add_call fs)"
      using w1 c by simp
    moreover have "filter is_render_call (Luat_clear_templates # map add_call fs) = []" by simp
    moreover have "ticks w1 = ticks w + 2" using w1 by (simp add: rebuild_start_def)
    ultimately show ?thesis using False by auto
  next
    case nc: False
    then obtain e where "fst (add_all E fs (rebuild_start E w)) = Throw e"
      by (cases "fst (add_all E fs (rebuild_start E w))") (simp_all add: rebuild_completes_def)
    from reload_rebuild_throw [OF False this] assms show ?thesis by simp
  qed
qed

lemma Math_min_three: "Math_min [a, b, c] = Num (min a (min b c))"
  by simp

lemma renderWithError_step:
  assumes "renderWithError E entry ctx w = (out, b)"
  shows "ticks b = ticks w"
    and "\<exists>rest. calls b = calls w @ Luat_render_with_error entry (JSON_stringify E ctx) # rest
           \<and> filter is_render_call rest = []"
proof -
  show "ticks b = ticks w" using renderWithError_simps(2) [of E entry ctx w] assms by simp
  show "\<exists>rest. calls b = calls w @ Luat_render_with_error entry (JSON_stringify E ctx) # rest
           \<and> filter is_render_call rest = []"
    using renderWithError_calls [of E entry ctx w] assms by auto
qed




lemmas bridge_defs = now_def clearTemplates_def ccall_clear_templates_def addTemplate_def
  ccall_add_template_def renderWithError_def ccall_render_with_error_def
  Module_UTF8ToString_def Module_luat_free_string_def

lemmas run_defs = runCode_def runCode_try_def reload_templates_def entryFile_of_def
  getFilesHash_def formatTime_def numeral_3_eq_3

lemmas demo_defs = demo_engine_def world0_def demo_playground_def json_ok_def json_fail_def
  json_missing_def

lemmas eval_defs = run_defs bridge_defs demo_defs docChanged_def reset_def new_calls_def
  run_result_def rebuild_completes_def rebuild_start_def add_call_def getInitialFiles_def
  initialFiles_def initialCode_def edits_one_field_def

section \<open>Facts about the loader and the page\<close>


lemma run_extends_refl [simp]: "run_extends w w"
  by (simp add: run_extends_def)












lemma render_after_init_True [simp]: "render_after_init True cs"
proof (induction cs)
  case Nil
  show ?case by simp
next
  case (Cons c cs)
  then show ?case by (cases c) simp_all
qed


lemma render_after_init_no_render:
  "filter is_render_call cs = [] \<Longrightarrow> render_after_init ok cs"
  by (induction ok cs rule: render_after_init.induct) simp_all



lemmas count_defs = scripts_def creates_def inits_def




lemma editor_luat [simp]:
  "luat (tab_effect old s) = luat s"
  "luat (editor_ready s) = luat s"
  "luat (typed c s) = luat s"
  "luat (docChanged c s) = luat s"
  by (simp_all add: tab_effect_def editor_ready_def typed_def docChanged_def
      split: option.splits)

lemma inv_widgets_frame [simp]:
  "loader_inv wm (P\<lparr>widgets := ws\<rparr>) = loader_inv wm P"
  "trace_inv (P\<lparr>widgets := ws\<rparr>) = trace_inv P"
  "widget_ok (P\<lparr>widgets := ws\<rparr>) wd = widget_ok P wd"
  by (simp_all add: loader_inv_def trace_inv_def widget_ok_def count_defs
      split: suspension.splits option.splits promise.splits)








































section \<open>Initial files\<close>

text \<open>
  Claim C10. The initial virtual-file list is never empty: a non-empty \<^verbatim>\<open>files\<close> prop is
  used as it is, whatever the \<^verbatim>\<open>code\<close> prop; otherwise a non-empty \<^verbatim>\<open>code\<close> prop gives the
  single file \<^verbatim>\<open>main.luat\<close> with that code; with neither prop (absent or empty) the single
  file \<^verbatim>\<open>main.luat\<close> with empty code.
\<close>

theorem getInitialFiles_spec:
  "getInitialFiles p \<noteq> []
   \<and> (\<forall>fs. files_prop p = Some fs \<and> fs \<noteq> [] \<longrightarrow> getInitialFiles p = fs)
   \<and> (\<forall>c. (files_prop p = None \<or> files_prop p = Some []) \<and> code_prop p = Some c \<and> c \<noteq> []
          \<longrightarrow> getInitialFiles p = [\<lparr>name = ''main.luat'', code = c\<rparr>])
   \<and> ((files_prop p = None \<or> files_prop p = Some [])
        \<and> (code_prop p = None \<or> code_prop p = Some [])
          \<longrightarrow> getInitialFiles p = [\<lparr>name = ''main.luat'', code = []\<rparr>])"
  by (auto simp: getInitialFiles_def initialFiles_def initialCode_def split: option.splits)

theorem getInitialFiles_spec_witness:
  "getInitialFiles \<lparr>code_prop = Some ''<p>x</p>'',
                    files_prop = Some [\<lparr>name = ''a.luat'', code = ''A''\<rparr>]\<rparr>
     = [\<lparr>name = ''a.luat'', code = ''A''\<rparr>]
   \<and> getInitialFiles \<lparr>code_prop = Some ''<p>x</p>'', files_prop = None\<rparr>
     = [\<lparr>name = ''main.luat'', code = ''<p>x</p>''\<rparr>]
   \<and> getInitialFiles \<lparr>code_prop = Some ''<p>x</p>'', files_prop = Some []\<rparr>
     = [\<lparr>name = ''main.luat'', code = ''<p>x</p>''\<rparr>]
   \<and> getInitialFiles \<lparr>code_prop = None, files_prop = None\<rparr>
     = [\<lparr>name = ''main.luat'', code = []\<rparr>]"
  using getInitialFiles_spec [of "\<lparr>code_prop = Some ''<p>x</p>'',
                    files_prop = Some [\<lparr>name = ''a.luat'', code = ''A''\<rparr>]\<rparr>"]
    getInitialFiles_spec [of "\<lparr>code_prop = Some ''<p>x</p>'', files_prop = None\<rparr>"]
    getInitialFiles_spec [of "\<lparr>code_prop = Some ''<p>x</p>'', files_prop = Some []\<rparr>"]
    getInitialFiles_spec [of "\<lparr>code_prop = None, files_prop = None\<rparr>"]
  by simp

section \<open>Status codes of the registry calls\<close>

text \<open>
  Claim C4. A non-zero status of the underlying call is raised as an error naming the file,
  a zero status raises nothing. \<^verbatim>\<open>addTemplate\<close> does so (lemma \<open>addTemplate_status\<close>), but
  \<^verbatim>\<open>clearTemplates\<close> drops the status of \<^verbatim>\<open>luat_clear_templates\<close>: with an engine whose
  clear entry point reports status 1, the call returns normally.
\<close>

theorem clearTemplates_ignores_status:
  "luat_clear_templates (demo_engine\<lparr>luat_clear_templates := (\<lambda>w. 1)\<rparr>) world0 = 1
   \<and> fst (clearTemplates (demo_engine\<lparr>luat_clear_templates := (\<lambda>w. 1)\<rparr>) world0) = Return ()"
  by (simp add: clearTemplates_def ccall_clear_templates_def Let_def)

section \<open>Ownership of the result buffer\<close>

text \<open>
  Claim C8. When the render entry point returns a non-null handle, the bridge reads the JSON
  text out of the buffer and then frees that buffer exactly once, whether \<^verbatim>\<open>JSON.parse\<close>
  returns or throws; what it parses is the text the engine put there. When the handle is null
  it reads and frees nothing and returns the fixed result \<^verbatim>\<open>Internal error\<close>, which is not
  taken from the engine's JSON.
\<close>

theorem renderWithError_frees_once:
  "(case luat_render_with_error E w entry (JSON_stringify E ctx) of
      (p, json) \<Rightarrow>
        if p = 0
        then renderWithError E entry ctx w =
               (Return \<lparr>success = False, html = None, error = Some ''Internal error''\<rparr>,
                w\<lparr>calls := calls w @ [Luat_render_with_error entry (JSON_stringify E ctx)]\<rparr>)
        else fst (renderWithError E entry ctx w) =
               (case JSON_parse E json of Inl m \<Rightarrow> Throw m | Inr r \<Rightarrow> Return r)
           \<and> calls (snd (renderWithError E entry ctx w)) =
               calls w @ [Luat_render_with_error entry (JSON_stringify E ctx),
                          UTF8ToString p, Luat_free_string p]
           \<and> heap (snd (renderWithError E entry ctx w)) = (heap w)(p := None)
           \<and> registry (snd (renderWithError E entry ctx w)) = registry w)"
  by (simp add: renderWithError_def ccall_render_with_error_def Module_UTF8ToString_def
      Module_luat_free_string_def Let_def split: prod.splits sum.splits)

theorem renderWithError_frees_once_witness:
  "fst (renderWithError demo_engine ''main.luat'' [] world0) =
      Return \<lparr>success = False, html = None, error = Some ''Template not found''\<rparr>
   \<and> calls (snd (renderWithError demo_engine ''main.luat'' [] world0)) =
      [Luat_render_with_error ''main.luat'' ''{}'', UTF8ToString 8, Luat_free_string 8]
   \<and> heap (snd (renderWithError demo_engine ''main.luat'' [] world0)) 8 = None
   \<and> renderWithError demo_engine [] [] world0 =
      (Return \<lparr>success = False, html = None, error = Some ''Internal error''\<rparr>,
       world0\<lparr>calls := [Luat_render_with_error [] ''{}'']\<rparr>)"
  using renderWithError_frees_once
      [where E = demo_engine and w = world0 and entry = "''main.luat''" and ctx = "[]"]
    renderWithError_frees_once
      [where E = demo_engine and w = world0 and entry = "[]" and ctx = "[]"]
  by (simp add: demo_defs)

section \<open>Reset invalidates the cache\<close>




section \<open>Cache hits and misses\<close>




section \<open>What a failed run displays\<close>

text \<open>
  Claim C2, amended. With the module loaded, a run that fails clears the output: when a
  registry call throws, the \<^verbatim>\<open>try\<close> block ends with that error; whenever the block ends
  with an error, the output state is set to the empty string and the error state to the
  error's message; and when the render result reports \<^verbatim>\<open>success: false\<close>, the output state
  is set to the empty string and the error state to the result's error.
\<close>

theorem failed_run_clears_output:
  assumes "luat s = Some m"
  shows "(\<forall>e. fst (reload_templates E (files s) (getFilesHash (files s)) s w) = Throw e
            \<longrightarrow> run_result E s w = Throw e)
     \<and> (\<forall>e. run_result E s w = Throw e
            \<longrightarrow> output_st (fst (runCode E (s, w))) = Some []
              \<and> error_st (fst (runCode E (s, w))) = Some e)
     \<and> (\<forall>r. run_result E s w = Return r \<and> \<not> success r
            \<longrightarrow> output_st (fst (runCode E (s, w))) = Some []
              \<and> error_st (fst (runCode E (s, w))) = error r)"
proof (intro conjI allI impI)
  fix e
  assume "fst (reload_templates E (files s) (getFilesHash (files s)) s w) = Throw e"
  then show "run_result E s w = Throw e"
    by (cases "reload_templates E (files s) (getFilesHash (files s)) s w")
      (simp add: run_result_def runCode_try_def)
next
  fix e
  assume a: "run_result E s w = Throw e"
  obtain o2 s2 w2 where t: "runCode_try E (files s) (getFilesHash (files s)) s w = (o2, s2, w2)"
    by (cases "runCode_try E (files s) (getFilesHash (files s)) s w")
  with a have "o2 = Throw e" by (simp add: run_result_def)
  with t show "output_st (fst (runCode E (s, w))) = Some []"
    and "error_st (fst (runCode E (s, w))) = Some e"
    by (simp_all add: runCode_loaded [OF assms])
next
  fix r
  assume a: "run_result E s w = Return r \<and> \<not> success r"
  obtain o2 s2 w2 where t: "runCode_try E (files s) (getFilesHash (files s)) s w = (o2, s2, w2)"
    by (cases "runCode_try E (files s) (getFilesHash (files s)) s w")
  with a have o: "o2 = Return r" by (simp add: run_result_def)
  have "output_st s2 = Some [] \<and> error_st s2 = error r"
    using t o a
    by (auto simp: runCode_try_def Let_def split: prod.splits outcome.splits option.splits if_splits)
  with t o show "output_st (fst (runCode E (s, w))) = Some []"
    and "error_st (fst (runCode E (s, w))) = error r"
    by (simp_all add: runCode_loaded [OF assms])
qed

theorem failed_run_clears_output_witness:
  "luat (docChanged ''{#if y}'' (fst demo_first_run)) = Some (LuatModule 0)
   \<and> run_result demo_engine (docChanged ''{#if y}'' (fst demo_first_run)) (snd demo_first_run) =
       Return \<lparr>success = False, html = None, error = Some ''Unclosed {#if} block''\<rparr>
   \<and> output_st (fst (runCode demo_engine
         (docChanged ''{#if y}'' (fst demo_first_run), snd demo_first_run))) = Some []
   \<and> error_st (fst (runCode demo_engine
         (docChanged ''{#if y}'' (fst demo_first_run), snd demo_first_run)))
       = Some ''Unclosed {#if} block''
   \<and> run_result demo_engine (docChanged ''{#if x}'' (fst demo_first_run)) (snd demo_first_run) =
       Throw ''Failed to add template: main.luat''
   \<and> output_st (fst demo_failed_edit) = Some []
   \<and> error_st (fst demo_failed_edit) = Some ''Failed to add template: main.luat''"
proof -
  let ?y = "docChanged ''{#if y}'' (fst demo_first_run)"
  let ?x = "docChanged ''{#if x}'' (fst demo_first_run)"
  let ?w = "snd demo_first_run"
  have ly: "luat ?y = Some (LuatModule 0)" and lx: "luat ?x = Some (LuatModule 0)"
    by (simp_all add: demo_first_run_def eval_defs)
  have ry: "run_result demo_engine ?y ?w =
      Return \<lparr>success = False, html = None, error = Some ''Unclosed {#if} block''\<rparr>"
    by (simp add: demo_first_run_def eval_defs)
  have rx: "run_result demo_engine ?x ?w = Throw ''Failed to add template: main.luat''"
    by (simp add: demo_first_run_def eval_defs)
  show ?thesis
    using failed_run_clears_output [OF ly, of demo_engine ?w]
      failed_run_clears_output [OF lx, of demo_engine ?w] ly ry rx
    by (simp add: demo_failed_edit_def)
qed

text \<open>
  The claim as it is written fails: after the output \<^verbatim>\<open><h1>Hi</h1>\<close> was displayed, a run
  whose render result reports \<^verbatim>\<open>success: false\<close>, and a run whose \<^verbatim>\<open>addTemplate\<close> throws, both
  leave the output state empty.
\<close>

theorem failed_run_keeps_output_counterexample:
  "output_st (fst demo_first_run) = Some ''<h1>Hi</h1>''
   \<and> run_result demo_engine (docChanged ''{#if y}'' (fst demo_first_run)) (snd demo_first_run) =
       Return \<lparr>success = False, html = None, error = Some ''Unclosed {#if} block''\<rparr>
   \<and> output_st (fst (runCode demo_engine
         (docChanged ''{#if y}'' (fst demo_first_run), snd demo_first_run))) = Some []
   \<and> run_result demo_engine (docChanged ''{#if x}'' (fst demo_first_run)) (snd demo_first_run) =
       Throw ''Failed to add template: main.luat''
   \<and> output_st (fst demo_failed_edit) = Some []"
  by (simp add: demo_failed_edit_def demo_first_run_def eval_defs)

section \<open>Sampling the render phase\<close>

text \<open>
  Claim C9, amended. In a run (module loaded) whose \<^verbatim>\<open>try\<close> block runs to its end, so that
  no registry call and no render call throws, the render entry point is called exactly three
  times, each time with the name of the entry file and the JSON text of the empty context;
  the retained render time is the formatted minimum of the three durations, each the
  difference of the clock readings around one call, subtracted as doubles; and the displayed
  result is the value returned by the third of these calls, made in this run after the two
  others, whether or not the compilation was cached.
\<close>

theorem render_sampled_three_times:
  assumes "luat s = Some m" and "run_result E s w = Return r"
  shows "\<exists>f wa wb.
       entryFile_of (files s) = Some f
     \<and> filter is_render_call (new_calls w (snd (runCode E (s, w)))) =
         replicate 3 (Luat_render_with_error (name f) (JSON_stringify E []))
     \<and> (let k = ticks w + (if lastCompiledRef s = Some (getFilesHash (files s)) then 0 else 2);
            d0 = number_minus E (performance_now E (k + 1)) (performance_now E k);
            d1 = number_minus E (performance_now E (k + 3)) (performance_now E (k + 2));
            d2 = number_minus E (performance_now E (k + 5)) (performance_now E (k + 4))
        in renderTime (fst (runCode E (s, w))) = Some (formatTime E (Num (min d0 (min d1 d2)))))
     \<and> filter is_render_call (new_calls w wa) =
         replicate 2 (Luat_render_with_error (name f) (JSON_stringify E []))
     \<and> renderWithError E (name f) [] wa = (Return r, wb)
     \<and> snd (runCode E (s, w)) = snd (now E wb)
     \<and> output_st (fst (runCode E (s, w))) = (if success r then html r else Some [])
     \<and> error_st (fst (runCode E (s, w))) = (if success r then None else error r)"
proof -
  let ?fs = "files s" and ?h = "getFilesHash (files s)"
  let ?cj = "JSON_stringify E []"
  obtain o2 s2 w2 where t: "runCode_try E ?fs ?h s w = (o2, s2, w2)"
    by (cases "runCode_try E ?fs ?h s w")
  with assms(2) have o2: "o2 = Return r" by (simp add: run_result_def)
  obtain o1 s1 w1 where rl: "reload_templates E ?fs ?h s w = (o1, s1, w1)"
    by (cases "reload_templates E ?fs ?h s w")
  have o1: "o1 = Return ()"
    using t o2 rl by (cases o1) (simp_all add: runCode_try_def)
  obtain o3 w3 where rs: "render_samples E 3 (entryFile_of ?fs) ([], None) w1 = (o3, w3)"
    by (cases "render_samples E 3 (entryFile_of ?fs) ([], None) w1")
  have "\<exists>acc. o3 = Return acc"
    using t o2 rl o1 rs by (cases o3) (simp_all add: runCode_try_def)
  then obtain samples result where o3: "o3 = Return (samples, result)"
    by (metis surj_pair)
  from render_samples_three [OF rs [unfolded o3]] obtain f r1 b1 r2 b2 r3 b3 where
    f: "entryFile_of ?fs = Some f"
    and c1: "renderWithError E (name f) [] (snd (now E w1)) = (Return r1, b1)"
    and c2: "renderWithError E (name f) [] (snd (now E (snd (now E b1)))) = (Return r2, b2)"
    and c3: "renderWithError E (name f) [] (snd (now E (snd (now E b2)))) = (Return r3, b3)"
    and w3: "w3 = snd (now E b3)" and res: "result = Some r3"
    and sm: "samples = [number_minus E (fst (now E b1)) (fst (now E w1)),
                   number_minus E (fst (now E b2)) (fst (now E (snd (now E b1)))),
                   number_minus E (fst (now E b3)) (fst (now E (snd (now E b2))))]" by blast
  have try_eq: "(Return r, s2, w2) =
      (if success r3
       then (Return r3, s1\<lparr>renderTime := Some (formatTime E (Math_min samples)),
                           output_st := html r3, error_st := None\<rparr>, w3)
       else (Return r3, s1\<lparr>renderTime := Some (formatTime E (Math_min samples)),
                           error_st := error r3, output_st := Some []\<rparr>, w3))"
    using t o2 rl o1 rs o3 res by (simp add: runCode_try_def Let_def)
  then have r3: "r3 = r" and w2: "w2 = w3" by (simp_all split: if_splits)
  have s2: "renderTime s2 = Some (formatTime E (Math_min samples))"
    "output_st s2 = (if success r then html r else Some [])"
    "error_st s2 = (if success r then None else error r)"
    using try_eq r3 by (simp_all split: if_splits)
  have run: "runCode E (s, w) = (s2, w2)"
    using runCode_loaded [OF assms(1), of E w] t o2 by simp
  from reload_Return [OF rl [unfolded o1]] obtain pre where
    pre: "calls w1 = calls w @ pre" "filter is_render_call pre = []"
    and k: "ticks w1 = ticks w + (if lastCompiledRef s = Some ?h then 0 else 2)" by blast
  from renderWithError_step [OF c1] obtain rest1 where
    t1: "ticks b1 = Suc (ticks w1)"
    and k1: "calls b1 = calls w1 @ Luat_render_with_error (name f) ?cj # rest1"
      "filter is_render_call rest1 = []" by auto
  from renderWithError_step [OF c2] obtain rest2 where
    t2: "ticks b2 = Suc (Suc (ticks b1))"
    and k2: "calls b2 = calls b1 @ Luat_render_with_error (name f) ?cj # rest2"
      "filter is_render_call rest2 = []" by auto
  from renderWithError_step [OF c3] obtain rest3 where
    t3: "ticks b3 = Suc (Suc (ticks b2))"
    and k3: "calls b3 = calls b2 @ Luat_render_with_error (name f) ?cj # rest3"
      "filter is_render_call rest3 = []" by auto
  let ?wa = "snd (now E (snd (now E b2)))"
  have a: "filter is_render_call (new_calls w (snd (runCode E (s, w)))) =
      replicate 3 (Luat_render_with_error (name f) ?cj)"
    using run w2 w3 pre k1 k2 k3 by (simp add: new_calls_def numeral_3_eq_3)
  have b: "filter is_render_call (new_calls w ?wa) =
      replicate 2 (Luat_render_with_error (name f) ?cj)"
    using pre k1 k2 by (simp add: new_calls_def numeral_2_eq_2)
  have sm': "samples =
      [number_minus E (performance_now E (ticks w1 + 1)) (performance_now E (ticks w1)),
       number_minus E (performance_now E (ticks w1 + 3)) (performance_now E (ticks w1 + 2)),
       number_minus E (performance_now E (ticks w1 + 5)) (performance_now E (ticks w1 + 4))]"
    using sm t1 t2 t3 by (simp add: numeral_eq_Suc)
  have c: "let k = ticks w + (if lastCompiledRef s = Some ?h then 0 else 2);
            d0 = number_minus E (performance_now E (k + 1)) (performance_now E k);
            d1 = number_minus E (performance_now E (k + 3)) (performance_now E (k + 2));
            d2 = number_minus E (performance_now E (k + 5)) (performance_now E (k + 4))
        in renderTime (fst (runCode E (s, w))) = Some (formatTime E (Num (min d0 (min d1 d2))))"
    using run s2(1) sm' k by (simp add: Let_def)
  have d: "renderWithError E (name f) [] ?wa = (Return r, b3)" using c3 r3 by simp
  have e: "snd (runCode E (s, w)) = snd (now E b3)" using run w2 w3 by simp
  have g: "output_st (fst (runCode E (s, w))) = (if success r then html r else Some [])"
    "error_st (fst (runCode E (s, w))) = (if success r then None else error r)"
    using run s2 by simp_all
  from f a b c d e g show ?thesis by blast
qed

theorem render_sampled_three_times_witness:
  "luat (fst demo_first_run) = Some (LuatModule 0)
   \<and> run_result demo_engine (fst demo_first_run) (snd demo_first_run) =
       Return \<lparr>success = True, html = Some ''<h1>Hi</h1>'', error = None\<rparr>
   \<and> cached (fst (runCode demo_engine (fst demo_first_run, snd demo_first_run)))
   \<and> renderTime (fst (runCode demo_engine (fst demo_first_run, snd demo_first_run)))
       = Some ''17.00ms''
   \<and> (\<exists>f wa wb.
       entryFile_of (files (fst demo_first_run)) = Some f
     \<and> filter is_render_call
         (new_calls (snd demo_first_run)
            (snd (runCode demo_engine (fst demo_first_run, snd demo_first_run)))) =
         replicate 3 (Luat_render_with_error (name f) (JSON_stringify demo_engine []))
     \<and> filter is_render_call (new_calls (snd demo_first_run) wa) =
         replicate 2 (Luat_render_with_error (name f) (JSON_stringify demo_engine []))
     \<and> renderWithError demo_engine (name f) [] wa =
         (Return \<lparr>success = True, html = Some ''<h1>Hi</h1>'', error = None\<rparr>, wb)
     \<and> snd (runCode demo_engine (fst demo_first_run, snd demo_first_run)) =
         snd (now demo_engine wb)
     \<and> output_st (fst (runCode demo_engine (fst demo_first_run, snd demo_first_run)))
         = Some ''<h1>Hi</h1>'')"
proof -
  let ?s = "fst demo_first_run" and ?w = "snd demo_first_run"
  let ?r = "\<lparr>success = True, html = Some ''<h1>Hi</h1>'', error = None\<rparr>"
  have l: "luat ?s = Some (LuatModule 0)"
    by (simp add: demo_first_run_def eval_defs)
  have r: "run_result demo_engine ?s ?w = Return ?r"
    by (simp add: demo_first_run_def eval_defs)
  have c: "cached (fst (runCode demo_engine (?s, ?w)))"
    "renderTime (fst (runCode demo_engine (?s, ?w))) = Some ''17.00ms''"
    by (simp_all add: demo_first_run_def eval_defs)
  from render_sampled_three_times [OF l r] obtain f wa wb where
    "entryFile_of (files ?s) = Some f"
    "filter is_render_call (new_calls ?w (snd (runCode demo_engine (?s, ?w)))) =
       replicate 3 (Luat_render_with_error (name f) (JSON_stringify demo_engine []))"
    "filter is_render_call (new_calls ?w wa) =
       replicate 2 (Luat_render_with_error (name f) (JSON_stringify demo_engine []))"
    "renderWithError demo_engine (name f) [] wa = (Return ?r, wb)"
    "snd (runCode demo_engine (?s, ?w)) = snd (now demo_engine wb)"
    "output_st (fst (runCode demo_engine (?s, ?w))) = Some ''<h1>Hi</h1>''"
    by auto
  then have "\<exists>f wa wb.
       entryFile_of (files ?s) = Some f
     \<and> filter is_render_call (new_calls ?w (snd (runCode demo_engine (?s, ?w)))) =
         replicate 3 (Luat_render_with_error (name f) (JSON_stringify demo_engine []))
     \<and> filter is_render_call (new_calls ?w wa) =
         replicate 2 (Luat_render_with_error (name f) (JSON_stringify demo_engine []))
     \<and> renderWithError demo_engine (name f) [] wa = (Return ?r, wb)
     \<and> snd (runCode demo_engine (?s, ?w)) = snd (now demo_engine wb)
     \<and> output_st (fst (runCode demo_engine (?s, ?w))) = Some ''<h1>Hi</h1>''"
    by blast
  with l r c show ?thesis by (intro conjI)
qed

text \<open>
  The claim as it is written fails on a run that throws: when \<^verbatim>\<open>addTemplate\<close> throws, the
  render entry point is not called at all, and when \<^verbatim>\<open>JSON.parse\<close> rejects the engine's text
  it is called once; in both runs the \<^verbatim>\<open>catch\<close> block sets the render time to null.
\<close>

theorem render_not_sampled_counterexample:
  "luat (demo_playground ''{#if x}'') = Some (LuatModule 0)
   \<and> filter is_render_call (calls (snd demo_failed_run)) = []
   \<and> renderTime (fst demo_failed_run) = None
   \<and> filter is_render_call
        (calls (snd (runCode demo_engine_bad_json (demo_playground ''<h1>Hi</h1>'', world0))))
       = [Luat_render_with_error ''main.luat'' ''{}'']
   \<and> renderTime (fst (runCode demo_engine_bad_json (demo_playground ''<h1>Hi</h1>'', world0)))
       = None
   \<and> error_st (fst (runCode demo_engine_bad_json (demo_playground ''<h1>Hi</h1>'', world0)))
       = Some ''Unexpected end of JSON input''"
  by (simp add: demo_failed_run_def demo_engine_bad_json_def eval_defs)

section \<open>The cache after a failed rebuild\<close>

text \<open>
  Claim C1. The stored hash is that of the registry's contents, or it is empty; a run whose
  rebuild throws leaves the cache in a state that makes the next run a fresh attempt. The code
  keeps the old hash when a rebuild throws: after a first run of \<^verbatim>\<open><h1>Hi</h1>\<close>, an edit to
  a source the engine rejects and a run, the registry is empty while the stored hash is still
  that of \<^verbatim>\<open><h1>Hi</h1>\<close>; editing back and running is then reported as cached, issues no
  registry call and renders against the empty registry.
\<close>

theorem stale_hash_after_failed_rebuild:
  "registry (snd demo_first_run) = [(''main.luat'', ''<h1>Hi</h1>'')]
   \<and> lastCompiledRef (fst demo_first_run) = Some ''main.luat:<h1>Hi</h1>''
   \<and> output_st (fst demo_first_run) = Some ''<h1>Hi</h1>''
   \<and> error_st (fst demo_failed_edit) = Some ''Failed to add template: main.luat''
   \<and> lastCompiledRef (fst demo_failed_edit) = Some ''main.luat:<h1>Hi</h1>''
   \<and> registry (snd demo_failed_edit) = []
   \<and> files (docChanged ''<h1>Hi</h1>'' (fst demo_failed_edit)) = files (fst demo_first_run)
   \<and> cached (fst demo_reverted_run)
   \<and> filter is_registry_call (new_calls (snd demo_failed_edit) (snd demo_reverted_run)) = []
   \<and> registry (snd demo_reverted_run) = []
   \<and> output_st (fst demo_reverted_run) = Some []
   \<and> error_st (fst demo_reverted_run) = Some ''Template not found''"
  by (simp add: demo_reverted_run_def demo_failed_edit_def demo_first_run_def eval_defs)

section \<open>Loading the module once\<close>



section \<open>No render before a successful init\<close>



end
